theory Spec2Isabelle
  imports Main "HOL-Library.Word" "HOL-Library.AList"
begin

unbundle bit_operations_syntax

section \<open>Values shared by the data source and the DHCP handler\<close>

text \<open>
  Go's \<open>byte\<close> is an 8-bit word, \<open>net.HardwareAddr\<close> and \<open>net.IP\<close> are byte slices
  (the nil slice is the empty list: the program never tells a nil slice from an
  empty one except for a missing map key, which the model reads as \<open>None\<close>).
  A Go \<open>string\<close> is a list of characters.
\<close>

type_synonym byte = "8 word"
type_synonym HardwareAddr = "byte list"
type_synonym IP = "byte list"

text \<open>
  A Go call either panics (a slice or an index out of range) or returns; what it
  returns may hold an \<open>error\<close> value of its own.
\<close>

datatype 'a outcome = Panics | Returns 'a

datatype error =
    EcodeKeyNotFound \<comment> \<open>etcd error 100\<close>
  | EcodeNotFile \<comment> \<open>etcd error 102\<close>
  | EcodeNotDir \<comment> \<open>etcd error 104\<close>
  | AddrError \<comment> \<open>\<open>net.ParseMAC\<close>: invalid MAC address\<close>
  | ParseError \<comment> \<open>\<open>net.ParseCIDR\<close>: invalid CIDR address\<close>
  | UnmodelledIPv6 \<comment> \<open>an IPv6 address text, which the model does not parse\<close>
  | InconsistentDatasource \<comment> \<open>\<open>errors.New("Inconsistent datasource")\<close>\<close>
  | MissmatchInLeasePool \<comment> \<open>\<open>errors.New("Missmatch in lease pool")\<close>\<close>
  | DNSError \<comment> \<open>whatever \<open>DNSAddresses\<close> fails with\<close>

subsection \<open>Strings\<close>

text \<open>\<open>strings.Replace(s, ":", "", -1)\<close>: every colon is removed.\<close>

definition removeColons :: "string \<Rightarrow> string" where
  "removeColons s = filter (\<lambda>c. c \<noteq> CHR '':'') s"

text \<open>\<open>strings.LastIndex(s, "/")\<close>: the index of the last slash, or -1.\<close>

fun LastIndex :: "string \<Rightarrow> char \<Rightarrow> int" where
  "LastIndex [] c = -1"
| "LastIndex (x # xs) c =
     (let r = LastIndex xs c in
      if r \<noteq> -1 then r + 1 else if x = c then 0 else -1)"

text \<open>\<open>s[strings.LastIndex(s, "/")+1:]\<close>: what follows the last slash.\<close>

definition afterLastSlash :: "string \<Rightarrow> string" where
  "afterLastSlash s = drop (nat (LastIndex s (CHR ''/'') + 1)) s"

text \<open>
  \<open>strings.Join(strings.Split(s, ":"), "")\<close>: the pieces between the colons,
  glued back together.
\<close>

fun Split :: "string \<Rightarrow> char \<Rightarrow> string list" where
  "Split [] c = [[]]"
| "Split (x # xs) c =
     (if x = c then [] # Split xs c
      else (case Split xs c of
              [] \<Rightarrow> [[x]]
            | p # ps \<Rightarrow> (x # p) # ps))"

definition Join :: "string list \<Rightarrow> string" where
  "Join ps = concat ps"

subsection \<open>Hardware addresses (Go's \<open>net\<close> package)\<close>

definition hexDigit :: "string" where
  "hexDigit = ''0123456789abcdef''"

text \<open>
  \<open>HardwareAddr.String()\<close>: two lower-case hex digits per byte, colons between
  the bytes, the empty string for the empty address.
\<close>

definition hexByte :: "byte \<Rightarrow> string" where
  "hexByte b = [hexDigit ! unat (drop_bit 4 b), hexDigit ! unat (b AND 0xF)]"

fun HardwareAddr_String :: "HardwareAddr \<Rightarrow> string" where
  "HardwareAddr_String [] = []"
| "HardwareAddr_String [b] = hexByte b"
| "HardwareAddr_String (b # bs) = hexByte b @ '':'' @ HardwareAddr_String bs"

text \<open>
  \<open>xtoi2(s, e)\<close> of \<open>net/parse.go\<close>: the first two characters of \<open>s\<close> read as
  one hex byte; a third character, when there is one, must be \<open>e\<close>. The callers
  below always pass at least two characters.
\<close>

definition hexval :: "char \<Rightarrow> nat option" where
  "hexval c =
     (let n = (of_char c :: nat) in
      if 48 \<le> n \<and> n \<le> 57 then Some (n - 48)
      else if 97 \<le> n \<and> n \<le> 102 then Some (n - 97 + 10)
      else if 65 \<le> n \<and> n \<le> 70 then Some (n - 65 + 10)
      else None)"

definition xtoi2 :: "string \<Rightarrow> char \<Rightarrow> byte option" where
  "xtoi2 s e =
     (if length s > 2 \<and> s ! 2 \<noteq> e then None
      else (case (hexval (s ! 0), hexval (s ! 1)) of
              (Some h, Some l) \<Rightarrow> Some (of_nat (16 * h + l))
            | _ \<Rightarrow> None))"

text \<open>
  \<open>net.ParseMAC\<close>. The loop of the colon (or dash) form reads \<open>n\<close> bytes at the
  offsets 0, 3, 6, ...; the loop of the dotted form reads two bytes at the offsets
  0, 5, 10, ...
\<close>

fun parseMAC_bytes :: "string \<Rightarrow> char \<Rightarrow> nat \<Rightarrow> HardwareAddr option" where
  "parseMAC_bytes s sep 0 = Some []"
| "parseMAC_bytes s sep (Suc n) =
     (case xtoi2 s sep of
        None \<Rightarrow> None
      | Some b \<Rightarrow> (case parseMAC_bytes (drop 3 s) sep n of
                     None \<Rightarrow> None
                   | Some bs \<Rightarrow> Some (b # bs)))"

fun parseMAC_dotted :: "string \<Rightarrow> nat \<Rightarrow> HardwareAddr option" where
  "parseMAC_dotted s 0 = Some []"
| "parseMAC_dotted s (Suc n) =
     (case (xtoi2 (take 2 s) (CHR 0x00), xtoi2 (drop 2 s) (CHR ''.'')) of
        (Some b1, Some b2) \<Rightarrow>
          (case parseMAC_dotted (drop 5 s) n of
             None \<Rightarrow> None
           | Some bs \<Rightarrow> Some (b1 # b2 # bs))
      | _ \<Rightarrow> None)"

definition ParseMAC :: "string \<Rightarrow> error + HardwareAddr" where
  "ParseMAC s =
     (if length s < 14 then Inl AddrError
      else if s ! 2 = CHR '':'' \<or> s ! 2 = CHR ''-'' then
        (if (length s + 1) mod 3 \<noteq> 0 then Inl AddrError
         else let n = (length s + 1) div 3 in
           if n \<noteq> 6 \<and> n \<noteq> 8 \<and> n \<noteq> 20 then Inl AddrError
           else (case parseMAC_bytes s (s ! 2) n of
                   None \<Rightarrow> Inl AddrError
                 | Some hw \<Rightarrow> Inr hw))
      else if s ! 4 = CHR ''.'' then
        (if (length s + 1) mod 5 \<noteq> 0 then Inl AddrError
         else let n = 2 * (length s + 1) div 5 in
           if n \<noteq> 6 \<and> n \<noteq> 8 \<and> n \<noteq> 20 then Inl AddrError
           else (case parseMAC_dotted s (n div 2) of
                   None \<Rightarrow> Inl AddrError
                 | Some hw \<Rightarrow> Inr hw))
      else Inl AddrError)"

text \<open>\<open>macAddress, _ := net.ParseMAC(nic)\<close>: the error is dropped, the address is nil.\<close>

definition macOrNil :: "error + HardwareAddr \<Rightarrow> HardwareAddr" where
  "macOrNil r = (case r of Inl e \<Rightarrow> [] | Inr hw \<Rightarrow> hw)"

section \<open>Node names\<close>

text \<open>
  \<open>addColonToMacAddress\<close> copies the first twelve characters of its argument and
  writes a colon after every second one, then cuts the last colon off. Reading
  \<open>colonLessMac[i : i+1]\<close> panics when the argument has fewer than twelve
  characters.
\<close>

fun addColon_loop :: "string \<Rightarrow> nat \<Rightarrow> nat \<Rightarrow> string" where
  "addColon_loop s i 0 = []"
| "addColon_loop s i (Suc k) =
     (s ! i) # (if i mod 2 = 1 then '':'' else []) @ addColon_loop s (Suc i) k"

definition addColonToMacAddress :: "string \<Rightarrow> string outcome" where
  "addColonToMacAddress colonLessMac =
     (if length colonLessMac < 12 then Panics
      else Returns (butlast (addColon_loop colonLessMac 0 12)))"

definition nodeNameFromMac :: "string \<Rightarrow> string" where
  "nodeNameFromMac mac = removeColons (''node'' @ mac)"

section \<open>IP addresses (Go's \<open>net\<close> package and \<open>dhcp4.IPAdd\<close>)\<close>

text \<open>
  The library functions are modelled as of the Go releases the repository was
  written for (1.5 and 1.6). An address is a byte slice of length 4 or 16; the
  16-byte form of an IPv4 address carries the prefix \<open>00 .. 00 ff ff\<close>.
\<close>

definition v4InV6Prefix :: "byte list" where
  "v4InV6Prefix = [0, 0, 0, 0, 0, 0, 0, 0, 0, 0, 0xff, 0xff]"

definition IPv4 :: "byte \<Rightarrow> byte \<Rightarrow> byte \<Rightarrow> byte \<Rightarrow> IP" where
  "IPv4 a b c d = v4InV6Prefix @ [a, b, c, d]"

definition To4 :: "IP \<Rightarrow> IP" where
  "To4 ip =
     (if length ip = 4 then ip
      else if length ip = 16 \<and> take 10 ip = replicate 10 0
              \<and> ip ! 10 = 0xff \<and> ip ! 11 = 0xff then drop 12 ip
      else [])"

definition digit :: "nat \<Rightarrow> char" where
  "digit n = char_of (48 + n)"

function uitoa :: "nat \<Rightarrow> string" where
  "uitoa n = (if n < 10 then [digit n] else uitoa (n div 10) @ [digit (n mod 10)])"
  by pat_completeness auto
termination
  by (relation "measure id") auto

declare uitoa.simps [simp del]

text \<open>\<open>strconv.FormatInt(n, 10)\<close>.\<close>

definition FormatInt :: "int \<Rightarrow> string" where
  "FormatInt n = (if n < 0 then ''-'' @ uitoa (nat (- n)) else uitoa (nat n))"

text \<open>
  \<open>appendHex\<close>: a 16-bit group in lower-case hex without leading zeros.
\<close>

function hexString :: "nat \<Rightarrow> string" where
  "hexString n =
     (if n < 16 then [hexDigit ! n] else hexString (n div 16) @ [hexDigit ! (n mod 16)])"
  by pat_completeness auto
termination
  by (relation "measure id") auto

declare hexString.simps [simp del]

text \<open>
  The textual form of a 16-byte address that is not an IPv4 one: \<open>groups\<close> are
  its eight 16-bit fields; \<open>longestZeros\<close> finds the first longest run of zero
  fields (\<open>e0\<close>, \<open>e1\<close> in field units; \<open>e1 = e0\<close> when there is none), which is
  printed as \<open>::\<close> when it spans more than one field.
\<close>

fun groups :: "byte list \<Rightarrow> nat list" where
  "groups (h # l # bs) = (unat h * 256 + unat l) # groups bs"
| "groups _ = []"

function longestZeros :: "nat list \<Rightarrow> nat \<Rightarrow> nat \<times> nat \<Rightarrow> nat \<times> nat" where
  "longestZeros gs i (e0, e1) =
     (if i \<ge> length gs then (e0, e1)
      else let j = i + length (takeWhile (\<lambda>g. g = 0) (drop i gs)) in
        if j > i \<and> j - i > e1 - e0 then longestZeros gs (j + 1) (i, j)
        else longestZeros gs (i + 1) (e0, e1))"
  by pat_completeness auto
termination
  by (relation "measure (\<lambda>(gs, i, e). length gs - i)") auto

declare longestZeros.simps [simp del]

function printGroups :: "nat list \<Rightarrow> nat \<times> nat \<Rightarrow> nat \<Rightarrow> string" where
  "printGroups gs (e0, e1) i =
     (if i \<ge> length gs then []
      else if e0 < e1 \<and> i = e0 then
        ''::'' @ (if e1 \<ge> length gs then []
                  else hexString (gs ! e1) @ printGroups gs (e0, e1) (e1 + 1))
      else (if i > 0 then '':'' else []) @ hexString (gs ! i)
           @ printGroups gs (e0, e1) (i + 1))"
  by pat_completeness auto
termination
  by (relation "measure (\<lambda>(gs, e, i). length gs - i)") auto

declare printGroups.simps [simp del]

definition ipv6_String :: "IP \<Rightarrow> string" where
  "ipv6_String ip =
     (let gs = groups ip;
          e = longestZeros gs 0 (0, 0);
          e' = (if snd e - fst e \<le> 1 then (0, 0) else e)
      in printGroups gs e' 0)"

text \<open>
  \<open>IP.String()\<close>: \<open><nil>\<close> for the empty slice, the dotted quad for an IPv4
  address in either form, \<open>?\<close> for a slice of any other length than 16.
\<close>

definition IP_String :: "IP \<Rightarrow> string" where
  "IP_String ip =
     (if length ip = 0 then ''<nil>''
      else if length (To4 ip) = 4 then
        uitoa (unat (To4 ip ! 0)) @ ''.'' @ uitoa (unat (To4 ip ! 1)) @ ''.''
        @ uitoa (unat (To4 ip ! 2)) @ ''.'' @ uitoa (unat (To4 ip ! 3))
      else if length ip \<noteq> 16 then ''?''
      else ipv6_String ip)"

text \<open>
  \<open>dtoi(s, 0)\<close> on the whole of \<open>s\<close>: a non-empty run of decimal digits below
  \<open>0xFFFFFF\<close>, with nothing after it. (\<open>dtoiAll\<close> is \<open>dtoi\<close> followed by the
  caller's check that the number ends where the text does.)
\<close>

definition isDigit :: "char \<Rightarrow> bool" where
  "isDigit c = (48 \<le> (of_char c :: nat) \<and> (of_char c :: nat) \<le> 57)"

fun dtoi_loop :: "string \<Rightarrow> int \<Rightarrow> int option" where
  "dtoi_loop [] n = Some n"
| "dtoi_loop (c # cs) n =
     (let n' = n * 10 + ((of_char c :: int) - 48) in
      if n' \<ge> 0xFFFFFF then None else dtoi_loop cs n')"

definition dtoiAll :: "string \<Rightarrow> int option" where
  "dtoiAll s = (if s = [] \<or> \<not> list_all isDigit s then None else dtoi_loop s 0)"

text \<open>
  \<open>parseIPv4\<close>: exactly four decimal numbers of at most 255, dots between them;
  the result is the 16-byte form.
\<close>

definition parseIPv4 :: "string \<Rightarrow> IP option" where
  "parseIPv4 s =
     (case map dtoiAll (Split s (CHR ''.'')) of
        [Some a, Some b, Some c, Some d] \<Rightarrow>
          if a > 0xFF \<or> b > 0xFF \<or> c > 0xFF \<or> d > 0xFF then None
          else Some (IPv4 (word_of_int a) (word_of_int b) (word_of_int c) (word_of_int d))
      | _ \<Rightarrow> None)"

text \<open>
  \<open>net.ParseCIDR\<close>, of which the program keeps the address and drops the network:
  a text without a slash is an error; the part after the slash is a prefix length
  of at most 32. An address part that is not IPv4 is an error when it has no colon
  (no IPv6 text is without one); the parsing of IPv6 texts is left out of the model
  and reported as \<open>UnmodelledIPv6\<close>.
\<close>

fun byteIndex :: "string \<Rightarrow> char \<Rightarrow> int" where
  "byteIndex [] c = -1"
| "byteIndex (x # xs) c =
     (if x = c then 0
      else let r = byteIndex xs c in if r = -1 then -1 else r + 1)"

definition ParseCIDR :: "string \<Rightarrow> error + IP" where
  "ParseCIDR s =
     (let i = byteIndex s (CHR ''/'') in
      if i < 0 then Inl ParseError
      else let addr = take (nat i) s; mask = drop (nat i + 1) s in
        (case parseIPv4 addr of
           None \<Rightarrow> if CHR '':'' \<in> set addr then Inl UnmodelledIPv6 else Inl ParseError
         | Some ip \<Rightarrow>
             (case dtoiAll mask of
                None \<Rightarrow> Inl ParseError
              | Some n \<Rightarrow> if n > 32 then Inl ParseError else Inr ip)))"

text \<open>
  \<open>dhcp4.IPAdd(start, add)\<close>: the four bytes of \<open>start.To4()\<close> read as a
  big-endian \<open>uint32\<close>, plus \<open>uint32(add)\<close>, written back as four bytes. Reading
  the \<open>uint32\<close> from a nil slice (\<open>start\<close> is not an IPv4 address) panics.
\<close>

definition Uint32 :: "byte list \<Rightarrow> 32 word" where
  "Uint32 b = push_bit 24 (ucast (b ! 0)) OR push_bit 16 (ucast (b ! 1))
              OR push_bit 8 (ucast (b ! 2)) OR ucast (b ! 3)"

definition PutUint32 :: "32 word \<Rightarrow> byte list" where
  "PutUint32 v = [ucast (drop_bit 24 v), ucast (drop_bit 16 v),
                  ucast (drop_bit 8 v), ucast v]"

definition IPAdd :: "IP \<Rightarrow> int \<Rightarrow> IP outcome" where
  "IPAdd start add =
     (if length (To4 start) < 4 then Panics
      else Returns (PutUint32 (Uint32 (To4 start) + word_of_int add)))"

section \<open>The etcd key space\<close>

text \<open>
  The etcd server behind \<open>keysAPI\<close> is modelled by its content: the keys that
  exist, each a directory or a file with a value, in the order of their creation
  (etcd lists the children of a directory in no promised order). A key is kept in
  the form the server gives it, with a leading slash. The server is taken to
  answer every call within its deadline: transport failures are not modelled.
\<close>

datatype etcd_node = Dir | File string

type_synonym etcd = "(string \<times> etcd_node) list"

record Node =
  Key :: string
  isDir :: bool
  Value :: string
  Nodes :: "string list" \<comment> \<open>the keys of the children\<close>

text \<open>
  \<open>path.Clean\<close> as far as the program's keys need it: runs of slashes become one
  slash and a trailing slash goes. (The keys the program builds hold no \<open>.\<close> or
  \<open>..\<close> element.) \<open>path.Join\<close> leaves empty elements out.
\<close>

fun collapse :: "string \<Rightarrow> string" where
  "collapse (a # b # cs) =
     (if a = CHR ''/'' \<and> b = CHR ''/'' then collapse (b # cs) else a # collapse (b # cs))"
| "collapse cs = cs"

definition Clean :: "string \<Rightarrow> string" where
  "Clean p =
     (let q = collapse p in
      if q = [] then ''.''
      else if length q > 1 \<and> last q = CHR ''/'' then butlast q else q)"

definition path_Join :: "string \<Rightarrow> string \<Rightarrow> string" where
  "path_Join a b =
     (if a = [] \<and> b = [] then []
      else if a = [] then Clean b
      else if b = [] then Clean a
      else Clean (a @ ''/'' @ b))"

definition canon :: "string \<Rightarrow> string" where
  "canon key = Clean (''/'' @ key)"

definition parent :: "string \<Rightarrow> string" where
  "parent k = take (nat (LastIndex k (CHR ''/''))) k"

definition children :: "etcd \<Rightarrow> string \<Rightarrow> string list" where
  "children kv k = map fst (filter (\<lambda>(k', n). parent k' = k) kv)"

text \<open>The proper ancestors of a key, the outermost first.\<close>

definition ancestors :: "string \<Rightarrow> string list" where
  "ancestors k = map (\<lambda>i. take i k) (filter (\<lambda>i. k ! i = CHR ''/'') [1..<length k])"

definition etcd_Get :: "etcd \<Rightarrow> string \<Rightarrow> error + Node" where
  "etcd_Get kv key =
     (let k = canon key in
      case map_of kv k of
        None \<Rightarrow> Inl EcodeKeyNotFound
      | Some Dir \<Rightarrow> Inr \<lparr>Key = k, isDir = True, Value = [], Nodes = children kv k\<rparr>
      | Some (File v) \<Rightarrow> Inr \<lparr>Key = k, isDir = False, Value = v, Nodes = []\<rparr>)"

text \<open>
  \<open>Set\<close>, with or without \<open>Dir: true\<close>: the missing directories on the way are
  created; a file on the way is error 104; an existing directory is not replaced
  (error 102); an existing file is.
\<close>

definition isFile :: "etcd \<Rightarrow> string \<Rightarrow> bool" where
  "isFile kv k = (case map_of kv k of Some (File v) \<Rightarrow> True | _ \<Rightarrow> False)"

definition mkdirs :: "etcd \<Rightarrow> string list \<Rightarrow> etcd" where
  "mkdirs kv anc = fold (\<lambda>a kv'. if map_of kv' a = None then kv' @ [(a, Dir)] else kv') anc kv"

definition etcd_Set :: "etcd \<Rightarrow> string \<Rightarrow> string \<Rightarrow> bool \<Rightarrow> error option \<times> etcd" where
  "etcd_Set kv key v dir =
     (let k = canon key; anc = ancestors k in
      if list_ex (isFile kv) anc then (Some EcodeNotDir, kv)
      else if map_of kv k = Some Dir then (Some EcodeNotFile, kv)
      else (None, AList.update k (if dir then Dir else File v) (mkdirs kv anc)))"

section \<open>The etcd data source\<close>

text \<open>
  Of the fields of \<open>EtcdDataSource\<close> the DHCP path reads four; \<open>keysAPI\<close> stands
  for the content of the server it talks to. The two mutexes serialise the calls:
  the model runs one call after the other.
\<close>

record EtcdDataSource =
  keysAPI :: etcd
  leaseStart :: IP
  leaseRange :: int
  etcdDir :: string

text \<open>
  An \<open>EtcdMachine\<close> is a hardware address and a pointer to the data source, which
  the model passes along instead.
\<close>

record EtcdMachine =
  mac :: HardwareAddr

definition prefixify :: "EtcdDataSource \<Rightarrow> string \<Rightarrow> string" where
  "prefixify ds key = path_Join (etcdDir ds) key"

definition Get :: "EtcdDataSource \<Rightarrow> string \<Rightarrow> error + string" where
  "Get ds key =
     (case etcd_Get (keysAPI ds) (prefixify ds key) of
        Inl err \<Rightarrow> Inl err
      | Inr node \<Rightarrow> Inr (Value node))"

definition keysAPI_Set ::
  "EtcdDataSource \<Rightarrow> string \<Rightarrow> string \<Rightarrow> bool \<Rightarrow> error option \<times> EtcdDataSource" where
  "keysAPI_Set ds key v dir =
     (let (err, kv) = etcd_Set (keysAPI ds) key v dir in (err, ds\<lparr>keysAPI := kv\<rparr>))"

definition Set :: "EtcdDataSource \<Rightarrow> string \<Rightarrow> string \<Rightarrow> error option \<times> EtcdDataSource" where
  "Set ds key v = keysAPI_Set ds (prefixify ds key) v False"

subsection \<open>Machines\<close>

definition Name :: "EtcdMachine \<Rightarrow> string" where
  "Name m = removeColons (''node'' @ HardwareAddr_String (mac m))"

definition machine_prefixify :: "EtcdMachine \<Rightarrow> string \<Rightarrow> string" where
  "machine_prefixify m str = Name m @ ''/'' @ str"

definition selfGet :: "EtcdDataSource \<Rightarrow> EtcdMachine \<Rightarrow> string \<Rightarrow> error + string" where
  "selfGet ds m key = Get ds (machine_prefixify m key)"

definition selfSet ::
  "EtcdDataSource \<Rightarrow> EtcdMachine \<Rightarrow> string \<Rightarrow> string \<Rightarrow> error option \<times> EtcdDataSource" where
  "selfSet ds m key v = Set ds (machine_prefixify m key) v"

definition SetFlag ::
  "EtcdDataSource \<Rightarrow> EtcdMachine \<Rightarrow> string \<Rightarrow> string \<Rightarrow> error option \<times> EtcdDataSource" where
  "SetFlag ds m key v = selfSet ds m key v"

text \<open>\<open>EtcdMachine.IP()\<close>: the value under the machine's key \<open>IP\<close>, parsed as a CIDR.\<close>

definition EtcdMachine_IP :: "EtcdDataSource \<Rightarrow> EtcdMachine \<Rightarrow> error + IP" where
  "EtcdMachine_IP ds m =
     (case selfGet ds m ''IP'' of
        Inl err \<Rightarrow> Inl err
      | Inr ipstring \<Rightarrow> ParseCIDR ipstring)"

text \<open>\<open>ip, _ := node.IP()\<close>: the error is dropped, the address is nil.\<close>

definition ipOrNil :: "error + IP \<Rightarrow> IP" where
  "ipOrNil r = (case r of Inl e \<Rightarrow> [] | Inr ip \<Rightarrow> ip)"

text \<open>
  Modelled from the spec: \<open>CheckIn\<close>, which \<open>CreateMachine\<close> calls, is not among
  the source files. The spec's per-node accessor that "updates \<open>_last_seen\<close>" is
  taken for it, writing the key of the spec's store layout. The argument \<open>now\<close>
  is the clock reading (\<open>time.Now().UnixNano()\<close>) of the call.
\<close>

definition CheckIn :: "EtcdDataSource \<Rightarrow> EtcdMachine \<Rightarrow> int \<Rightarrow> EtcdDataSource" where
  "CheckIn ds m now =
     snd (keysAPI_Set ds (prefixify ds (''machines/'' @ Name m @ ''/_last_seen''))
            (FormatInt now) False)"

definition GetMachine :: "EtcdDataSource \<Rightarrow> HardwareAddr \<Rightarrow> EtcdMachine option" where
  "GetMachine ds mac' =
     (case etcd_Get (keysAPI ds)
             (prefixify ds (Clean (''machines/'' @ nodeNameFromMac (HardwareAddr_String mac')))) of
        Inl err \<Rightarrow> None
      | Inr node \<Rightarrow>
          if afterLastSlash (Key node) = nodeNameFromMac (HardwareAddr_String mac')
          then Some \<lparr>mac = mac'\<rparr> else None)"

text \<open>
  \<open>Machines\<close>: the loop over the children of \<open>machines\<close>, each name turned into
  a hardware address by \<open>addColonToMacAddress\<close> and \<open>net.ParseMAC\<close>.
\<close>

fun Machines_loop ::
  "EtcdDataSource \<Rightarrow> string list \<Rightarrow> EtcdMachine list \<Rightarrow> (error + EtcdMachine list) outcome" where
  "Machines_loop ds [] ret = Returns (Inr ret)"
| "Machines_loop ds (pathToMachineDir # ents) ret =
     (let machineName = afterLastSlash pathToMachineDir in
      case addColonToMacAddress machineName of
        Panics \<Rightarrow> Panics
      | Returns macStr \<Rightarrow>
          (case ParseMAC macStr of
             Inl err \<Rightarrow> Returns (Inl err)
           | Inr macAddr \<Rightarrow>
               (case GetMachine ds macAddr of
                  None \<Rightarrow> Returns (Inl InconsistentDatasource)
                | Some machine \<Rightarrow> Machines_loop ds ents (ret @ [machine]))))"

definition Machines :: "EtcdDataSource \<Rightarrow> (error + EtcdMachine list) outcome" where
  "Machines ds =
     (case etcd_Get (keysAPI ds) (prefixify ds ''/machines'') of
        Inl err \<Rightarrow> Returns (Inl err)
      | Inr node \<Rightarrow> Machines_loop ds (Nodes node) [])"

text \<open>\<open>machines, _ := ds.Machines()\<close>: the error is dropped, the list is nil.\<close>

definition machinesOrNil :: "error + EtcdMachine list \<Rightarrow> EtcdMachine list" where
  "machinesOrNil r = (case r of Inl e \<Rightarrow> [] | Inr ms \<Rightarrow> ms)"

text \<open>
  \<open>CreateMachine\<close>: the loop refuses a hardware address or an IP that a listed
  machine has, or a machine whose IP cannot be read; then the directory and the
  fields are written, the results of the writes dropped.
\<close>

fun CreateMachine_loop ::
  "EtcdDataSource \<Rightarrow> HardwareAddr \<Rightarrow> IP \<Rightarrow> EtcdMachine list \<Rightarrow> bool" where
  "CreateMachine_loop ds mac' ip [] = True"
| "CreateMachine_loop ds mac' ip (node # machines) =
     (if HardwareAddr_String (mac node) = HardwareAddr_String mac' then False
      else (case EtcdMachine_IP ds node of
              Inl err \<Rightarrow> False
            | Inr nodeip \<Rightarrow>
                if IP_String nodeip = IP_String ip then False
                else CreateMachine_loop ds mac' ip machines))"

definition CreateMachine ::
  "EtcdDataSource \<Rightarrow> HardwareAddr \<Rightarrow> IP \<Rightarrow> int
     \<Rightarrow> ((EtcdMachine option \<times> bool) \<times> EtcdDataSource) outcome" where
  "CreateMachine ds mac' ip now =
     (case Machines ds of
        Panics \<Rightarrow> Panics
      | Returns (Inl err) \<Rightarrow> Returns ((None, False), ds)
      | Returns (Inr machines) \<Rightarrow>
          if \<not> CreateMachine_loop ds mac' ip machines then Returns ((None, False), ds)
          else
            let machine = \<lparr>mac = mac'\<rparr>;
                ds1 = snd (keysAPI_Set ds (prefixify ds (''machines/'' @ Name machine)) [] True);
                ds2 = snd (keysAPI_Set ds1 (prefixify ds1 (''machines/'' @ Name machine @ ''/_IP''))
                             (IP_String ip) False);
                ds3 = snd (keysAPI_Set ds2 (prefixify ds2 (''machines/'' @ Name machine @ ''/_mac''))
                             (HardwareAddr_String (mac machine)) False);
                ds4 = snd (keysAPI_Set ds3
                             (prefixify ds3 (''machines/'' @ Name machine @ ''/_first_seen''))
                             (FormatInt now) False);
                ds5 = CheckIn ds4 machine now;
                ds6 = snd (SetFlag ds5 machine ''state'' ''unknown'')
            in Returns ((Some machine, True), ds6))"

subsection \<open>The lease allocator\<close>

text \<open>\<open>store\<close> writes \<open>_IP\<close> and \<open>_last_seen\<close> of a machine under \<open>machines/\<close>.\<close>

definition store :: "EtcdDataSource \<Rightarrow> EtcdMachine \<Rightarrow> IP \<Rightarrow> int \<Rightarrow> EtcdDataSource" where
  "store ds m ip now =
     (let ds1 = snd (keysAPI_Set ds (prefixify ds (''machines/'' @ Name m @ ''/_IP''))
                       (IP_String ip) False)
      in snd (keysAPI_Set ds1 (prefixify ds1 (''machines/'' @ Name m @ ''/_last_seen''))
                (FormatInt now) False))"

text \<open>
  \<open>Assign\<close>, first loop: the machine with the hardware address \<open>nic\<close>, or the
  set \<open>assignedIPs\<close> of the textual IPs of the machines listed.
\<close>

fun Assign_find ::
  "EtcdDataSource \<Rightarrow> string \<Rightarrow> EtcdMachine list \<Rightarrow> (string \<rightharpoonup> bool)
     \<Rightarrow> EtcdMachine + (string \<rightharpoonup> bool)" where
  "Assign_find ds nic [] assignedIPs = Inr assignedIPs"
| "Assign_find ds nic (node # machines) assignedIPs =
     (if HardwareAddr_String (mac node) = nic then Inl node
      else Assign_find ds nic machines
             (assignedIPs(IP_String (ipOrNil (EtcdMachine_IP ds node)) \<mapsto> True)))"

text \<open>
  \<open>Assign\<close>, second loop, from \<open>i\<close> on: the first of \<open>leaseStart + i\<close>,
  \<open>i < leaseRange\<close>, that is not in \<open>assignedIPs\<close>; \<open>None\<close> when there is none.
\<close>

function Assign_scan ::
  "EtcdDataSource \<Rightarrow> (string \<rightharpoonup> bool) \<Rightarrow> int \<Rightarrow> IP option outcome" where
  "Assign_scan ds assignedIPs i =
     (if i < leaseRange ds then
        (case IPAdd (leaseStart ds) i of
           Panics \<Rightarrow> Panics
         | Returns ip \<Rightarrow>
             if assignedIPs (IP_String ip) = None then Returns (Some ip)
             else Assign_scan ds assignedIPs (i + 1))
      else Returns None)"
  by pat_completeness auto
termination
  by (relation "measure (\<lambda>(ds, a, i). nat (leaseRange ds - i))") auto

declare Assign_scan.simps [simp del]

text \<open>
  \<open>Assign\<close> returns a pair \<open>(net.IP, error)\<close>; the model returns it with the data
  source as the call leaves it.
\<close>

definition Assign ::
  "EtcdDataSource \<Rightarrow> string \<Rightarrow> int \<Rightarrow> ((IP \<times> error option) \<times> EtcdDataSource) outcome" where
  "Assign ds nic now =
     (case Machines ds of
        Panics \<Rightarrow> Panics
      | Returns r \<Rightarrow>
          (case Assign_find ds nic (machinesOrNil r) Map.empty of
             Inl node \<Rightarrow>
               (let ip = ipOrNil (EtcdMachine_IP ds node)
                in Returns ((ip, None), store ds node ip now))
           | Inr assignedIPs \<Rightarrow>
               (case Assign_scan ds assignedIPs 0 of
                  Panics \<Rightarrow> Panics
                | Returns (Some ip) \<Rightarrow>
                    (let macAddress = macOrNil (ParseMAC nic) in
                     case CreateMachine ds macAddress ip now of
                       Panics \<Rightarrow> Panics
                     | Returns (created, ds') \<Rightarrow> Returns ((ip, None), ds'))
                | Returns None \<Rightarrow> Returns (([], None), ds))))"

text \<open>
  \<open>Request\<close>: the loop returns the machine that matches both the hardware address
  and the IP, or the two flags \<open>macExists\<close> and \<open>ipExists\<close>.
\<close>

fun Request_loop ::
  "EtcdDataSource \<Rightarrow> string \<Rightarrow> IP \<Rightarrow> EtcdMachine list \<Rightarrow> bool \<times> bool
     \<Rightarrow> (EtcdMachine \<times> IP) + (bool \<times> bool)" where
  "Request_loop ds nic currentIP [] (macExists, ipExists) = Inr (macExists, ipExists)"
| "Request_loop ds nic currentIP (node # machines) (macExists, ipExists) =
     (let thisNodeIP = ipOrNil (EtcdMachine_IP ds node);
          ipMatch = (IP_String thisNodeIP = IP_String currentIP);
          macMatch = (nic = HardwareAddr_String (mac node))
      in if ipMatch \<and> macMatch then Inl (node, thisNodeIP)
         else Request_loop ds nic currentIP machines
                (macExists \<or> macMatch, ipExists \<or> ipMatch))"

definition Request ::
  "EtcdDataSource \<Rightarrow> string \<Rightarrow> IP \<Rightarrow> int
     \<Rightarrow> ((IP \<times> error option) \<times> EtcdDataSource) outcome" where
  "Request ds nic currentIP now =
     (case Machines ds of
        Panics \<Rightarrow> Panics
      | Returns r \<Rightarrow>
          (case Request_loop ds nic currentIP (machinesOrNil r) (False, False) of
             Inl (node, thisNodeIP) \<Rightarrow>
               Returns ((currentIP, None), store ds node thisNodeIP now)
           | Inr (macExists, ipExists) \<Rightarrow>
               if ipExists \<or> macExists then Returns (([], Some MissmatchInLeasePool), ds)
               else
                 (let macAddress = macOrNil (ParseMAC nic) in
                  case CreateMachine ds macAddress currentIP now of
                    Panics \<Rightarrow> Panics
                  | Returns (created, ds') \<Rightarrow> Returns ((currentIP, None), ds'))))"

section \<open>The DHCP handler\<close>

text \<open>
  The packets of the library \<open>dhcp4\<close> are modelled by what the handler reads
  from a request and puts into a reply, not by their bytes on the wire. Of a
  request the handler reads the client hardware address and \<open>ciaddr\<close>; its
  options arrive as a map from option code to value.
\<close>

datatype MessageType =
    dhcp4_Discover | dhcp4_Offer | dhcp4_Request | dhcp4_Decline
  | dhcp4_ACK | dhcp4_NAK | dhcp4_Release | dhcp4_Inform

record Packet =
  CHAddr :: HardwareAddr
  CIAddr :: IP

type_synonym Options = "byte \<rightharpoonup> byte list"

text \<open>
  A reply: the arguments of \<open>dhcp4.ReplyPacket\<close> (message type, server
  identifier, \<open>yiaddr\<close>, lease duration in nanoseconds, where 0 stands for no
  lease option) and the options in the order in which they were added.
\<close>

record Reply =
  msgType :: MessageType
  serverId :: IP
  yIAddr :: IP
  leaseDuration :: int
  replyOptions :: "(byte \<times> byte list) list"

definition ReplyPacket ::
  "Packet \<Rightarrow> MessageType \<Rightarrow> IP \<Rightarrow> IP \<Rightarrow> int \<Rightarrow> (byte \<times> byte list) list \<Rightarrow> Reply" where
  "ReplyPacket req mt serverId' yIAddr' leaseDuration' options =
     \<lparr>msgType = mt, serverId = serverId', yIAddr = yIAddr',
      leaseDuration = leaseDuration', replyOptions = options\<rparr>"

definition AddOption :: "Reply \<Rightarrow> byte \<Rightarrow> byte list \<Rightarrow> Reply" where
  "AddOption packet o' v = packet\<lparr>replyOptions := replyOptions packet @ [(o', v)]\<rparr>"

text \<open>
  \<open>Options.SelectOrderOrAll(order)\<close>: without a parameter request list, all
  the options (Go walks its map in no promised order; the model keeps the order of
  the list); with one, those it names, in its order.
\<close>

definition SelectOrderOrAll ::
  "(byte \<times> byte list) list \<Rightarrow> byte list option \<Rightarrow> (byte \<times> byte list) list" where
  "SelectOrderOrAll opts order =
     (case order of
        None \<Rightarrow> opts
      | Some order' \<Rightarrow>
          concat (map (\<lambda>v. case map_of opts v of None \<Rightarrow> [] | Some data \<Rightarrow> [(v, data)]) order'))"

text \<open>\<open>IP.Equal\<close>: the 4-byte and the 16-byte form of an IPv4 address are equal.\<close>

definition IP_Equal :: "IP \<Rightarrow> IP \<Rightarrow> bool" where
  "IP_Equal ip x =
     (if length ip = length x then ip = x
      else if length ip = 4 \<and> length x = 16 then take 12 x = v4InV6Prefix \<and> ip = drop 12 x
      else if length ip = 16 \<and> length x = 4 then take 12 ip = v4InV6Prefix \<and> drop 12 ip = x
      else False)"

definition IPv4zero :: IP where
  "IPv4zero = IPv4 0 0 0 0"

text \<open>\<open>[]byte(s)\<close>.\<close>

definition bytes :: "string \<Rightarrow> byte list" where
  "bytes s = map of_char s"

subsection \<open>Lease duration\<close>

definition minLeaseHours :: int where
  "minLeaseHours = 24"

definition maxLeaseHours :: int where
  "maxLeaseHours = 48"

text \<open>\<open>time.Hour\<close>, in nanoseconds.\<close>

definition Hour :: int where
  "Hour = 3600 * 1000000000"

text \<open>
  \<open>rand.Intn(n)\<close> for an \<open>n\<close> that is positive and no power of two: the draw
  \<open>raw\<close> that the generator accepts, reduced modulo \<open>n\<close>.
\<close>

definition Intn :: "int \<Rightarrow> nat \<Rightarrow> int" where
  "Intn n raw = int raw mod n"

definition randLeaseDuration :: "nat \<Rightarrow> int" where
  "randLeaseDuration raw =
     (let n = minLeaseHours + Intn (maxLeaseHours - minLeaseHours) raw in n * Hour)"

subsection \<open>The handler\<close>

record DHCPSetting =
  IFName :: string
  ServerIP :: IP
  RouterAddr :: IP
  SubnetMask :: IP

text \<open>
  The handler's \<open>datasource\<close> is an interface whose declaration is not among
  the source files: \<open>Assign\<close> and \<open>Request\<close> are those of the etcd data source
  above, whose state the model passes along; what \<open>DNSAddresses()\<close> and
  \<open>ClusterName()\<close> return is a parameter.
\<close>

record DHCPHandler =
  settings :: DHCPSetting
  DNSAddresses :: "error + byte list"
  ClusterName :: string
  bootMessage :: string

definition fillPXE :: "DHCPHandler \<Rightarrow> byte list" where
  "fillPXE h =
     [6, 1, 3]
     @ [8, 7, 0x80, 0x00, 1]
     @ To4 (ServerIP (settings h))
     @ [9, of_nat (3 + length (bootMessage h)), 0x80, 0x00, 9]
     @ bytes (bootMessage h)
     @ [10, of_nat (1 + length (bootMessage h)), 0x2]
     @ bytes (bootMessage h)
     @ [255]"

text \<open>
  The three options of a PXE reply. \<open>guidVal[1:]\<close> panics on an empty value.
\<close>

definition addPXE :: "DHCPHandler \<Rightarrow> Reply \<Rightarrow> byte list \<Rightarrow> Reply outcome" where
  "addPXE h packet guidVal =
     (if length guidVal < 1 then Panics
      else let guid = drop 1 guidVal in
        Returns (AddOption (AddOption (AddOption packet 60 (bytes ''PXEClient'')) 97 guid)
                   43 (fillPXE h)))"

text \<open>
  \<open>ServeDHCP\<close>, with the state of the data source, the draw of the random
  generator and the clock reading as further arguments. \<open>None\<close> is the nil packet:
  no reply.
\<close>

definition ServeDHCP ::
  "DHCPHandler \<Rightarrow> EtcdDataSource \<Rightarrow> Packet \<Rightarrow> MessageType \<Rightarrow> Options \<Rightarrow> nat \<Rightarrow> int
     \<Rightarrow> (Reply option \<times> EtcdDataSource) outcome" where
  "ServeDHCP h ds p msgType' options raw now =
     (case DNSAddresses h of
        Inl err \<Rightarrow> Returns (None, ds)
      | Inr dns \<Rightarrow>
         (let dhcpOptions =
                [(1, To4 (SubnetMask (settings h))), (6, dns)]
                @ (if RouterAddr (settings h) \<noteq> [] then [(3, To4 (RouterAddr (settings h)))]
                   else []);
              macAddress = Join (Split (HardwareAddr_String (CHAddr p)) (CHR '':''))
          in (case msgType' of
            dhcp4_Discover \<Rightarrow>
              (case Assign ds (HardwareAddr_String (CHAddr p)) now of
                 Panics \<Rightarrow> Panics
               | Returns ((ip, err), ds') \<Rightarrow>
                  (if err \<noteq> None then Returns (None, ds')
                   else
                    (let replyOptions = SelectOrderOrAll dhcpOptions (options 55);
                         packet = ReplyPacket p dhcp4_Offer (ServerIP (settings h)) ip
                                    (randLeaseDuration raw) replyOptions
                     in (case options 97 of
                           Some guidVal \<Rightarrow>
                             (case addPXE h packet guidVal of
                                Panics \<Rightarrow> Panics
                              | Returns packet' \<Rightarrow> Returns (Some packet', ds'))
                         | None \<Rightarrow> Returns (Some packet, ds')))))
          | dhcp4_Request \<Rightarrow>
             (if (case options 54 of
                    Some server \<Rightarrow> \<not> IP_Equal server (ServerIP (settings h))
                  | None \<Rightarrow> False)
              then Returns (None, ds)
              else
               (let requestedIP = (case options 50 of Some v \<Rightarrow> v | None \<Rightarrow> CIAddr p)
                in (if length requestedIP \<noteq> 4 \<or> IP_Equal requestedIP IPv4zero
                    then Returns (None, ds)
                    else
                     (case Request ds (HardwareAddr_String (CHAddr p)) requestedIP now of
                        Panics \<Rightarrow> Panics
                      | Returns ((ip, err), ds') \<Rightarrow>
                         (if err \<noteq> None
                          then Returns
                                 (Some (ReplyPacket p dhcp4_NAK (ServerIP (settings h)) [] 0 []),
                                  ds')
                          else
                           (let replyOptions = SelectOrderOrAll dhcpOptions (options 55);
                                packet = ReplyPacket p dhcp4_ACK (ServerIP (settings h))
                                           requestedIP (randLeaseDuration raw) replyOptions
                            in (case (case options 97 of
                                        Some guidVal \<Rightarrow> addPXE h packet guidVal
                                      | None \<Rightarrow> Returns packet) of
                                  Panics \<Rightarrow> Panics
                                | Returns packet' \<Rightarrow>
                                    Returns
                                      (Some (AddOption packet' 12
                                               (bytes (''node'' @ macAddress @ ''.''
                                                       @ ClusterName h))),
                                       ds'))))))))
          | _ \<Rightarrow> Returns (None, ds))))"

section \<open>The scenarios of the specification\<close>

text \<open>
  The registry of scenario S1: an empty \<open>machines\<close> directory under the prefix
  \<open>blacksmith\<close>, as \<open>NewEtcdDataSource\<close> leaves it, and a pool of four addresses
  from 10.0.0.10 on.
\<close>

definition ds_S1 :: EtcdDataSource where
  "ds_S1 =
     \<lparr>keysAPI = [(''/blacksmith'', Dir), (''/blacksmith/machines'', Dir)],
      leaseStart = IPv4 10 0 0 10, leaseRange = 4, etcdDir = ''blacksmith''\<rparr>"

definition mac01 :: HardwareAddr where
  "mac01 = [0xaa, 0xbb, 0xcc, 0xdd, 0xee, 0x01]"

definition mac02 :: HardwareAddr where
  "mac02 = [0xaa, 0xbb, 0xcc, 0xdd, 0xee, 0x02]"

text \<open>
  The registry once the node of \<open>aa:bb:cc:dd:ee:01\<close> has been created with the
  IP 10.0.0.10 at the clock reading 1000.
\<close>

definition ds_node01 :: EtcdDataSource where
  "ds_node01 =
     \<lparr>keysAPI =
        [(''/blacksmith'', Dir),
         (''/blacksmith/machines'', Dir),
         (''/blacksmith/machines/nodeaabbccddee01'', Dir),
         (''/blacksmith/machines/nodeaabbccddee01/_IP'', File ''10.0.0.10''),
         (''/blacksmith/machines/nodeaabbccddee01/_mac'', File ''aa:bb:cc:dd:ee:01''),
         (''/blacksmith/machines/nodeaabbccddee01/_first_seen'', File ''1000''),
         (''/blacksmith/machines/nodeaabbccddee01/_last_seen'', File ''1000''),
         (''/blacksmith/nodeaabbccddee01'', Dir),
         (''/blacksmith/nodeaabbccddee01/state'', File ''unknown'')],
      leaseStart = IPv4 10 0 0 10, leaseRange = 4, etcdDir = ''blacksmith''\<rparr>"

text \<open>A handler: server 10.0.0.1, one DNS server, boot message of release v0.2.\<close>

definition h_S1 :: DHCPHandler where
  "h_S1 =
     \<lparr>settings = \<lparr>IFName = ''eth0'', ServerIP = [10, 0, 0, 1],
                  RouterAddr = IPv4 10 0 0 254, SubnetMask = IPv4 255 255 255 0\<rparr>,
      DNSAddresses = Inr [8, 8, 8, 8], ClusterName = ''cluster'',
      bootMessage = ''Blacksmith (v0.2)''\<rparr>"

definition p01 :: Packet where
  "p01 = \<lparr>CHAddr = mac01, CIAddr = [0, 0, 0, 0]\<rparr>"

definition p02 :: Packet where
  "p02 = \<lparr>CHAddr = mac02, CIAddr = [0, 0, 0, 0]\<rparr>"

definition offer_S1 :: Reply where
  "offer_S1 =
     \<lparr>msgType = dhcp4_Offer, serverId = [10, 0, 0, 1], yIAddr = [10, 0, 0, 10],
      leaseDuration = 29 * Hour,
      replyOptions = [(1, [255, 255, 255, 0]), (6, [8, 8, 8, 8]), (3, [10, 0, 0, 254])]\<rparr>"

text \<open>
  The registry of scenario S5: the node of \<open>ff:ff:ff:00:00:01\<close>, created by a
  request for 10.0.0.50 on the empty registry.
\<close>

definition mac_ff :: HardwareAddr where
  "mac_ff = [0xff, 0xff, 0xff, 0x00, 0x00, 0x01]"

definition ds_node_ff :: EtcdDataSource where
  "ds_node_ff =
     \<lparr>keysAPI =
        [(''/blacksmith'', Dir),
         (''/blacksmith/machines'', Dir),
         (''/blacksmith/machines/nodeffffff000001'', Dir),
         (''/blacksmith/machines/nodeffffff000001/_IP'', File ''10.0.0.50''),
         (''/blacksmith/machines/nodeffffff000001/_mac'', File ''ff:ff:ff:00:00:01''),
         (''/blacksmith/machines/nodeffffff000001/_first_seen'', File ''1000''),
         (''/blacksmith/machines/nodeffffff000001/_last_seen'', File ''1000''),
         (''/blacksmith/nodeffffff000001'', Dir),
         (''/blacksmith/nodeffffff000001/state'', File ''unknown'')],
      leaseStart = IPv4 10 0 0 10, leaseRange = 4, etcdDir = ''blacksmith''\<rparr>"

section \<open>Notions used in the statements\<close>

text \<open>
  An IPv4 address as a number, and the pool \<open>[leaseStart, leaseStart + leaseRange)\<close>.
\<close>

definition ipNum :: "IP \<Rightarrow> int" where
  "ipNum ip = uint (Uint32 (To4 ip))"

definition inPool :: "EtcdDataSource \<Rightarrow> IP \<Rightarrow> bool" where
  "inPool ds ip \<longleftrightarrow>
     length (To4 ip) = 4 \<and> ipNum (leaseStart ds) \<le> ipNum ip
     \<and> ipNum ip < ipNum (leaseStart ds) + leaseRange ds"

text \<open>A machine of the snapshot that \<open>Machines\<close> returns has the hardware address \<open>nic\<close>.\<close>

definition knownMac :: "EtcdDataSource \<Rightarrow> string \<Rightarrow> bool" where
  "knownMac ds nic =
     (case Machines ds of
        Panics \<Rightarrow> False
      | Returns r \<Rightarrow> list_ex (\<lambda>node. HardwareAddr_String (mac node) = nic) (machinesOrNil r))"

text \<open>The options that a reply to a PXE client carries after the configured ones.\<close>

definition pxeOptions :: "DHCPHandler \<Rightarrow> Options \<Rightarrow> (byte \<times> byte list) list" where
  "pxeOptions h options =
     (case options 97 of
        None \<Rightarrow> []
      | Some g \<Rightarrow> [(60, bytes ''PXEClient''), (97, drop 1 g), (43, fillPXE h)])"


section \<open>Further scenarios\<close>

definition m01 :: EtcdMachine where
  "m01 = \<lparr>mac = mac01\<rparr>"

text \<open>
  Scenario S6 with a pool of one address: the node of \<open>aa:bb:cc:dd:ee:01\<close> holds
  10.0.0.10, the only address of the pool.
\<close>

definition ds_S6 :: EtcdDataSource where
  "ds_S6 = ds_node01\<lparr>leaseRange := 1\<rparr>"




text \<open>A PXE client whose option 97 has no bytes.\<close>

definition options_empty97 :: Options where
  "options_empty97 = [97 \<mapsto> []]"



section \<open>Lemmas on the allocator\<close>

lemma Uint32_PutUint32: "Uint32 (PutUint32 v) = v"
proof (rule bit_word_eqI)
  fix n :: nat
  assume "n < LENGTH(32)"
  then have n: "n < 32" by simp
  consider "n < 8" | "8 \<le> n" "n < 16" | "16 \<le> n" "n < 24" | "24 \<le> n"
    by linarith
  then show "bit (Uint32 (PutUint32 v)) n = bit v n"
  proof cases
    case 1
    then show ?thesis by (auto simp: Uint32_def PutUint32_def bit_simps)
  next
    case 2
    then show ?thesis by (auto simp: Uint32_def PutUint32_def bit_simps)
  next
    case 3
    then show ?thesis by (auto simp: Uint32_def PutUint32_def bit_simps)
  next
    case 4
    with n show ?thesis by (auto simp: Uint32_def PutUint32_def bit_simps)
  qed
qed

lemma IPAdd_num:
  assumes "IPAdd start j = Returns ip" and "0 \<le> j" and "ipNum start + j < 2 ^ 32"
  shows "length ip = 4 \<and> To4 ip = ip \<and> ipNum ip = ipNum start + j"
proof -
  from assms(1) have ip: "ip = PutUint32 (Uint32 (To4 start) + word_of_int j)"
    by (auto simp: IPAdd_def split: if_splits)
  then have len: "length ip = 4" by (simp add: PutUint32_def)
  then have to4: "To4 ip = ip" by (simp add: To4_def)
  have "uint (Uint32 (To4 start) + word_of_int j)
        = (uint (Uint32 (To4 start)) + j mod 2 ^ 32) mod 2 ^ 32"
    by (simp add: uint_word_ariths uint_word_of_int)
  also have "\<dots> = ipNum start + j"
  proof -
    have nn: "0 \<le> ipNum start" by (simp add: ipNum_def)
    with assms(2,3) have "j < 2 ^ 32" by simp
    with assms(2) have "j mod 2 ^ 32 = j" by simp
    moreover have "0 \<le> ipNum start + j" using assms(2) nn by simp
    ultimately have "(ipNum start + j mod 2 ^ 32) mod 2 ^ 32 = ipNum start + j"
      using assms(3) by simp
    then show ?thesis by (simp add: ipNum_def)
  qed
  finally show ?thesis using len to4 ip by (simp add: ipNum_def Uint32_PutUint32)
qed

lemma Assign_scan_Some:
  "Assign_scan ds a i = Returns (Some ip) \<Longrightarrow>
     \<exists>j. i \<le> j \<and> j < leaseRange ds \<and> IPAdd (leaseStart ds) j = Returns ip"
proof (induction ds a i rule: Assign_scan.induct)
  case (1 ds a i)
  show ?case
  proof (cases "i < leaseRange ds")
    case False
    with "1.prems" show ?thesis by (simp add: Assign_scan.simps)
  next
    case True
    show ?thesis
    proof (cases "IPAdd (leaseStart ds) i")
      case Panics
      with True "1.prems" show ?thesis by (simp add: Assign_scan.simps)
    next
      case (Returns ip')
      show ?thesis
      proof (cases "a (IP_String ip') = None")
        case free: True
        with True Returns "1.prems" have "ip' = ip" by (simp add: Assign_scan.simps)
        with True Returns show ?thesis by auto
      next
        case taken: False
        with True Returns "1.prems" have "Assign_scan ds a (i + 1) = Returns (Some ip)"
          by (simp add: Assign_scan.simps)
        from "1.IH" [OF True Returns taken this]
        obtain j where "i + 1 \<le> j" "j < leaseRange ds" "IPAdd (leaseStart ds) j = Returns ip"
          by blast
        moreover from this have "i \<le> j" by simp
        ultimately show ?thesis by blast
      qed
    qed
  qed
qed

lemma Assign_find_Inl:
  "Assign_find ds nic ms a = Inl node \<Longrightarrow>
     list_ex (\<lambda>node. HardwareAddr_String (mac node) = nic) ms"
  by (induction ms arbitrary: a) (auto split: if_splits)

lemma Assign_error_nil: "Assign ds nic now = Returns ((ip, err), ds') \<Longrightarrow> err = None"
  by (auto simp: Assign_def Let_def split: outcome.splits sum.splits option.splits prod.splits)

lemma Request_ip: "Request ds nic cur now = Returns ((ip', None), ds'') \<Longrightarrow> ip' = cur"
  by (auto simp: Request_def Let_def split: outcome.splits sum.splits prod.splits if_splits)

lemma Assign_pool:
  assumes "Assign ds nic now = Returns ((ip, err), ds')" and "ip \<noteq> []"
    and "\<not> knownMac ds nic"
  shows "\<exists>j. 0 \<le> j \<and> j < leaseRange ds \<and> IPAdd (leaseStart ds) j = Returns ip"
proof -
  from assms(1) obtain r where r: "Machines ds = Returns r"
    by (auto simp: Assign_def split: outcome.splits)
  with assms(3)
  have "\<not> list_ex (\<lambda>node. HardwareAddr_String (mac node) = nic) (machinesOrNil r)"
    by (simp add: knownMac_def)
  with Assign_find_Inl
  obtain a where a: "Assign_find ds nic (machinesOrNil r) Map.empty = Inr a"
    by (cases "Assign_find ds nic (machinesOrNil r) Map.empty") blast+
  from assms(1,2) r a have "Assign_scan ds a 0 = Returns (Some ip)"
    by (auto simp: Assign_def Let_def split: outcome.splits option.splits prod.splits)
  from Assign_scan_Some [OF this] show ?thesis .
qed

section \<open>The scenarios, run\<close>

lemma CreateMachine_S1:
  "CreateMachine ds_S1 mac01 [10, 0, 0, 10] 1000
     = Returns ((Some \<lparr>mac = mac01\<rparr>, True), ds_node01)"
  by code_simp

lemma Assign_S1:
  "Assign ds_S1 ''aa:bb:cc:dd:ee:01'' 1000 = Returns (([10, 0, 0, 10], None), ds_node01)"
  by code_simp

lemma Request_S5:
  "Request ds_S1 ''ff:ff:ff:00:00:01'' [10, 0, 0, 50] 1000
     = Returns (([10, 0, 0, 50], None), ds_node_ff)"
  by code_simp

lemma ServeDHCP_S1:
  "ServeDHCP h_S1 ds_S1 p01 dhcp4_Discover Map.empty 5 1000
     = Returns (Some offer_S1, ds_node01)"
  by code_simp

section \<open>Lemmas on the replies\<close>

lemma addPXE_Returns:
  "addPXE h packet g = Returns packet' \<Longrightarrow>
     g \<noteq> [] \<and> msgType packet' = msgType packet
     \<and> leaseDuration packet' = leaseDuration packet
     \<and> replyOptions packet' =
         replyOptions packet @ [(60, bytes ''PXEClient''), (97, drop 1 g), (43, fillPXE h)]"
  by (auto simp: addPXE_def AddOption_def Let_def split: if_splits)

lemma SelectOrderOrAll_mem:
  assumes "(c, v) \<in> set (SelectOrderOrAll opts order)"
  shows "(c, v) \<in> set opts"
proof (cases order)
  case None
  with assms show ?thesis by (simp add: SelectOrderOrAll_def)
next
  case (Some order')
  with assms have "map_of opts c = Some v"
    by (auto simp: SelectOrderOrAll_def split: option.splits)
  then show ?thesis by (rule map_of_SomeD)
qed

lemma ServeDHCP_Discover_shape:
  assumes "ServeDHCP h ds p dhcp4_Discover options raw now = Returns (Some r, ds')"
  shows "\<exists>base. fst ` set base \<subseteq> {1, 6, 3} \<and> msgType r = dhcp4_Offer
           \<and> leaseDuration r = randLeaseDuration raw \<and> options 97 \<noteq> Some []
           \<and> replyOptions r = base @ pxeOptions h options"
  using assms
  apply (simp add: ServeDHCP_def Let_def
           split: sum.splits outcome.splits prod.splits if_splits option.splits)
     apply (auto simp: ReplyPacket_def pxeOptions_def dest!: addPXE_Returns SelectOrderOrAll_mem)
  done

lemma ServeDHCP_Request_shape:
  assumes "ServeDHCP h ds p dhcp4_Request options raw now = Returns (Some r, ds')"
    and "msgType r \<noteq> dhcp4_NAK"
  shows "\<exists>base. fst ` set base \<subseteq> {1, 6, 3} \<and> msgType r = dhcp4_ACK
           \<and> leaseDuration r = randLeaseDuration raw \<and> options 97 \<noteq> Some []
           \<and> replyOptions r =
               base @ pxeOptions h options
               @ [(12, bytes (''node'' @ Join (Split (HardwareAddr_String (CHAddr p)) (CHR '':''))
                              @ ''.'' @ ClusterName h))]"
  using assms
  apply (simp add: ServeDHCP_def Let_def
           split: sum.splits outcome.splits prod.splits if_splits option.splits)
                 apply (auto simp: ReplyPacket_def pxeOptions_def AddOption_def
                          dest!: addPXE_Returns SelectOrderOrAll_mem)
  done

lemma ServeDHCP_replies:
  assumes "ServeDHCP h ds p mt options raw now = Returns (Some r, ds')"
  shows "mt = dhcp4_Discover \<or> mt = dhcp4_Request"
  using assms by (cases mt) (auto simp: ServeDHCP_def Let_def split: sum.splits)

lemma randLeaseDuration_hours:
  "\<exists>n. randLeaseDuration raw = n * Hour \<and> 24 \<le> n \<and> n < 48"
  unfolding randLeaseDuration_def Intn_def minLeaseHours_def maxLeaseHours_def Let_def
  by (rule exI [of _ "24 + int raw mod 24"]) simp

section \<open>The claims\<close>

text \<open>
  Claim C4, as amended. Every IP that \<open>Assign\<close> returns for a hardware address
  that no machine of its snapshot has comes from the scan of the pool and lies in
  \<open>[leaseStart, leaseStart + leaseRange)\<close>, the addresses read as 32-bit numbers
  and the pool not running past 255.255.255.255. An IP that \<open>Request\<close> returns
  is the requested IP itself: it is not checked against the pool.
\<close>

theorem C4_pool_bound_amended:
  "(Assign ds nic now = Returns ((ip, err), ds') \<and> ip \<noteq> [] \<and> \<not> knownMac ds nic
      \<and> ipNum (leaseStart ds) + leaseRange ds \<le> 2 ^ 32 \<longrightarrow> inPool ds ip)
   \<and> (Request ds nic cur now = Returns ((ip', None), ds'') \<longrightarrow> ip' = cur)"
proof (intro conjI impI)
  assume h: "Assign ds nic now = Returns ((ip, err), ds') \<and> ip \<noteq> [] \<and> \<not> knownMac ds nic
      \<and> ipNum (leaseStart ds) + leaseRange ds \<le> 2 ^ 32"
  then obtain j where j: "0 \<le> j" "j < leaseRange ds" "IPAdd (leaseStart ds) j = Returns ip"
    using Assign_pool by blast
  with h have "ipNum (leaseStart ds) + j < 2 ^ 32" by linarith
  from IPAdd_num [OF j(3) j(1) this] j show "inPool ds ip"
    by (simp add: inPool_def)
next
  assume "Request ds nic cur now = Returns ((ip', None), ds'')"
  then show "ip' = cur" by (rule Request_ip)
qed

text \<open>
  The amended claim at scenario S1 (the first Discover gets 10.0.0.10, inside the
  pool) and at scenario S5 (the request for 10.0.0.50 is granted as it stands).
\<close>

theorem C4_pool_bound_amended_witness:
  "Assign ds_S1 ''aa:bb:cc:dd:ee:01'' 1000 = Returns (([10, 0, 0, 10], None), ds_node01)
   \<and> \<not> knownMac ds_S1 ''aa:bb:cc:dd:ee:01''
   \<and> ipNum (leaseStart ds_S1) + leaseRange ds_S1 \<le> 2 ^ 32
   \<and> inPool ds_S1 [10, 0, 0, 10]
   \<and> Request ds_S1 ''ff:ff:ff:00:00:01'' [10, 0, 0, 50] 1000
       = Returns (([10, 0, 0, 50], None), ds_node_ff)"
proof -
  have k: "\<not> knownMac ds_S1 ''aa:bb:cc:dd:ee:01''" by code_simp
  have w: "ipNum (leaseStart ds_S1) + leaseRange ds_S1 \<le> 2 ^ 32" by code_simp
  have n: "[10, 0, 0, 10] \<noteq> ([] :: IP)" by simp
  from C4_pool_bound_amended
         [of ds_S1 "''aa:bb:cc:dd:ee:01''" 1000 "[10, 0, 0, 10]" None ds_node01]
       Assign_S1 Request_S5 k w n
  show ?thesis by blast
qed

text \<open>
  Claim C4 as stated fails at scenario S5: on the empty registry the request of
  \<open>ff:ff:ff:00:00:01\<close> for 10.0.0.50 returns 10.0.0.50, which is outside the pool
  of the four addresses from 10.0.0.10 on.
\<close>

theorem C4_counterexample:
  "Request ds_S1 ''ff:ff:ff:00:00:01'' [10, 0, 0, 50] 1000
     = Returns (([10, 0, 0, 50], None), ds_node_ff)
   \<and> \<not> inPool ds_S1 [10, 0, 0, 50]"
proof -
  have "\<not> inPool ds_S1 [10, 0, 0, 50]" by code_simp
  with Request_S5 show ?thesis by simp
qed

text \<open>
  Claim C9. The lease time of every Offer and every Ack that the handler emits is
  the one \<open>randLeaseDuration\<close> draws: a whole number \<open>n\<close> of hours with
  \<open>24 \<le> n < 48\<close>, whatever the draw \<open>raw\<close> of the random generator.
\<close>

theorem C9_lease_time_bounds:
  assumes "ServeDHCP h ds p mt options raw now = Returns (Some r, ds')"
    and "msgType r = dhcp4_Offer \<or> msgType r = dhcp4_ACK"
  shows "leaseDuration r = randLeaseDuration raw
         \<and> (\<exists>n. leaseDuration r = n * Hour \<and> 24 \<le> n \<and> n < 48)"
proof -
  from ServeDHCP_replies [OF assms(1)] have "leaseDuration r = randLeaseDuration raw"
  proof
    assume "mt = dhcp4_Discover"
    with assms(1) ServeDHCP_Discover_shape show ?thesis by blast
  next
    assume "mt = dhcp4_Request"
    moreover from assms(2) have "msgType r \<noteq> dhcp4_NAK" by auto
    ultimately show ?thesis using assms(1) ServeDHCP_Request_shape by blast
  qed
  with randLeaseDuration_hours [of raw] show ?thesis by simp
qed

theorem C9_lease_time_bounds_witness:
  "ServeDHCP h_S1 ds_S1 p01 dhcp4_Discover Map.empty 5 1000 = Returns (Some offer_S1, ds_node01)
   \<and> msgType offer_S1 = dhcp4_Offer
   \<and> leaseDuration offer_S1 = 29 * Hour"
proof -
  have m: "msgType offer_S1 = dhcp4_Offer \<or> msgType offer_S1 = dhcp4_ACK"
    by (simp add: offer_S1_def)
  from C9_lease_time_bounds [OF ServeDHCP_S1 m] ServeDHCP_S1
  show ?thesis by (simp add: offer_S1_def)
qed

section \<open>Further lemmas\<close>

lemma Machines_node01: "Machines ds_node01 = Returns (Inl AddrError)"
  by code_simp

lemma Assign_S6:
  "Assign ds_S6 ''aa:bb:cc:dd:ee:02'' 2000 = Returns (([10, 0, 0, 10], None), ds_S6)"
  by code_simp



lemma pxeOptions_codes: "fst ` set (pxeOptions h options) \<subseteq> {60, 97, 43}"
  by (auto simp: pxeOptions_def split: option.splits)


lemma map_of_after_base:
  assumes "fst ` set base \<subseteq> {1, 6, 3}" and "c \<notin> {1, 6, 3}"
  shows "map_of (base @ rest) c = map_of rest c"
proof -
  from assms have "c \<notin> fst ` set base" by blast
  then have "map_of base c = None" by (simp add: map_of_eq_None_iff)
  then show ?thesis by (simp add: map_add_def)
qed


section \<open>Names and hardware addresses\<close>

text \<open>
  A node's name is \<open>node\<close> and the hex digits of its hardware address.
  \<open>addColonToMacAddress\<close> on such a name, prefix included, either panics (a
  name shorter than twelve characters) or yields a text that \<open>net.ParseMAC\<close>
  rejects, so \<open>Machines\<close> returns no list for a registry that holds a node.
  On the hex digits alone it gives the hardware address back.
\<close>

lemma Name_node: "Name m = ''node'' @ removeColons (HardwareAddr_String (mac m))"
  by (simp add: Name_def removeColons_def)

lemma addColon_loop_pair:
  "even i \<Longrightarrow>
     addColon_loop s i (Suc (Suc k))
       = s ! i # s ! Suc i # CHR '':'' # addColon_loop s (Suc (Suc i)) k"
proof -
  assume "even i"
  then have "i mod 2 = 0" and "Suc i mod 2 = 1" by presburger+
  then show ?thesis by simp
qed

lemma addColon_loop_12:
  "addColon_loop s 0 12
     = [s ! 0, s ! 1, CHR '':'', s ! 2, s ! 3, CHR '':'', s ! 4, s ! 5, CHR '':'',
        s ! 6, s ! 7, CHR '':'', s ! 8, s ! 9, CHR '':'', s ! 10, s ! 11, CHR '':'']"
proof -
  have "(12 :: nat) = Suc (Suc (Suc (Suc (Suc (Suc (Suc (Suc (Suc (Suc (Suc (Suc 0)))))))))))"
    by simp
  then show ?thesis
    by (simp only: addColon_loop_pair addColon_loop.simps(1) even_zero even_Suc_Suc_iff)
       (simp add: eval_nat_numeral)
qed

lemma addColon_node_name:
  assumes "8 \<le> length rest"
  shows "\<exists>s. addColonToMacAddress (''node'' @ rest) = Returns s \<and> ParseMAC s = Inl AddrError"
proof -
  from assms obtain a b c d e f g h t where rest: "rest = a # b # c # d # e # f # g # h # t"
    by (auto simp: Suc_le_length_iff eval_nat_numeral)
  have s: "addColonToMacAddress (''node'' @ rest)
             = Returns [CHR ''n'', CHR ''o'', CHR '':'', CHR ''d'', CHR ''e'', CHR '':'',
                        a, b, CHR '':'', c, d, CHR '':'', e, f, CHR '':'', g, h]"
    unfolding addColonToMacAddress_def addColon_loop_12
    by (simp add: rest)
  have "xtoi2 (CHR ''n'' # CHR ''o'' # CHR '':'' # t') (CHR '':'') = None" for t'
    by (simp add: xtoi2_def hexval_def)
  then have "ParseMAC [CHR ''n'', CHR ''o'', CHR '':'', CHR ''d'', CHR ''e'', CHR '':'',
                        a, b, CHR '':'', c, d, CHR '':'', e, f, CHR '':'', g, h] = Inl AddrError"
    by (simp add: ParseMAC_def) (simp add: eval_nat_numeral)
  with s show ?thesis by simp
qed

lemma addColon_short: "length name < 12 \<Longrightarrow> addColonToMacAddress name = Panics"
  by (simp add: addColonToMacAddress_def)

lemma Machines_loop_node_name:
  assumes "afterLastSlash k = ''node'' @ rest"
  shows "Machines_loop ds (k # ents) ret = Panics
         \<or> Machines_loop ds (k # ents) ret = Returns (Inl AddrError)"
proof (cases "8 \<le> length rest")
  case True
  from addColon_node_name [OF this] assms show ?thesis by auto
next
  case False
  then have "length (''node'' @ rest) < 12" by simp
  from addColon_short [OF this] assms show ?thesis by simp
qed

lemma ServeDHCP_exhausted_pool:
  "ServeDHCP h_S1 (ds_S1\<lparr>leaseRange := 0\<rparr>) p01 dhcp4_Discover Map.empty 5 1000
     = Returns (Some (offer_S1\<lparr>yIAddr := []\<rparr>), ds_S1\<lparr>leaseRange := 0\<rparr>)"
  by code_simp

lemma Join_Split: "Join (Split s c) = filter (\<lambda>x. x \<noteq> c) s"
  by (induction s) (auto simp: Join_def split: list.splits)

lemma ACK_has_HostName:
  assumes "ServeDHCP h ds p dhcp4_Request options raw now = Returns (Some r, ds')"
    and "msgType r \<noteq> dhcp4_NAK"
  shows "map_of (replyOptions r) 12
           = Some (bytes (''node'' @ removeColons (HardwareAddr_String (CHAddr p))
                          @ ''.'' @ ClusterName h))"
proof -
  from ServeDHCP_Request_shape [OF assms] obtain base where
    base: "fst ` set base \<subseteq> {1, 6, 3}"
    and opts: "replyOptions r = base @ pxeOptions h options
         @ [(12, bytes (''node'' @ Join (Split (HardwareAddr_String (CHAddr p)) (CHR '':''))
                              @ ''.'' @ ClusterName h))]" by blast
  have "(m ++ map_of (pxeOptions h options)) 12 = m 12" for m :: "byte \<rightharpoonup> byte list"
    by (simp add: pxeOptions_def map_add_def split: option.splits)
  then show ?thesis
    unfolding opts by (subst map_of_after_base [OF base]) (simp_all add: Join_Split removeColons_def)
qed

lemma hexDigit_nth:
  assumes "k < 16"
  shows "hexDigit ! k \<noteq> CHR '':'' \<and> hexval (hexDigit ! k) = Some k"
proof -
  from assms have "k = 0 \<or> k = 1 \<or> k = 2 \<or> k = 3 \<or> k = 4 \<or> k = 5 \<or> k = 6 \<or> k = 7
    \<or> k = 8 \<or> k = 9 \<or> k = 10 \<or> k = 11 \<or> k = 12 \<or> k = 13 \<or> k = 14 \<or> k = 15"
    by arith
  then show ?thesis
    by (elim disjE) (simp_all add: hexDigit_def hexval_def)
qed

lemma nibbles:
  fixes b :: byte
  shows "unat (drop_bit 4 b) < 16" and "unat (b AND 0xF) < 16"
    and "of_nat (16 * unat (drop_bit 4 b) + unat (b AND 0xF)) = b"
proof -
  have lt: "unat b < 256" using unsigned_less [of b, where ?'a = nat] by simp
  have hi: "unat (drop_bit 4 b) = unat b div 16"
    by (simp add: drop_bit_eq_div unat_div)
  have "(0xF :: byte) = mask 4" by (simp add: mask_eq_exp_minus_1)
  then have "b AND 0xF = take_bit 4 b" by (simp only: take_bit_eq_mask)
  then have "unat (b AND 0xF) = take_bit 4 (unat b)" by (simp only: unsigned_take_bit_eq)
  then have lo: "unat (b AND 0xF) = unat b mod 16" by (simp add: take_bit_eq_mod)
  from lt hi show "unat (drop_bit 4 b) < 16" by simp
  from lo show "unat (b AND 0xF) < 16" by simp
  from hi lo have "16 * unat (drop_bit 4 b) + unat (b AND 0xF) = unat b" by simp
  then show "of_nat (16 * unat (drop_bit 4 b) + unat (b AND 0xF)) = b" by simp
qed

lemma hexByte_props:
  "\<exists>h l. hexByte b = [h, l] \<and> h \<noteq> CHR '':'' \<and> l \<noteq> CHR '':''
         \<and> (\<forall>t e. t = [] \<or> hd t = e \<longrightarrow> xtoi2 (h # l # t) e = Some b)"
proof -
  let ?h = "hexDigit ! unat (drop_bit 4 b)" and ?l = "hexDigit ! unat (b AND 0xF)"
  from hexDigit_nth [OF nibbles(1) [of b]] hexDigit_nth [OF nibbles(2) [of b]]
  have h: "?h \<noteq> CHR '':''" "hexval ?h = Some (unat (drop_bit 4 b))"
    and l: "?l \<noteq> CHR '':''" "hexval ?l = Some (unat (b AND 0xF))" by simp_all
  have "xtoi2 (?h # ?l # t) e = Some b" if "t = [] \<or> hd t = e" for t e
    using that h(2) l(2) nibbles(3) [of b] by (cases t) (auto simp: xtoi2_def)
  with h(1) l(1) show ?thesis by (auto simp: hexByte_def)
qed

lemma hex_portion_roundtrip:
  assumes "length m = 6"
  shows "addColonToMacAddress (drop 4 (Name \<lparr>mac = m\<rparr>)) = Returns (HardwareAddr_String m)
         \<and> ParseMAC (HardwareAddr_String m) = Inr m"
proof -
  from assms obtain a b c d e f where m: "m = [a, b, c, d, e, f]"
    by (auto simp: length_Suc_conv eval_nat_numeral)
  obtain a1 a2 where a: "hexByte a = [a1, a2]" "a1 \<noteq> CHR '':''" "a2 \<noteq> CHR '':''"
      "\<And>t e. t = [] \<or> hd t = e \<Longrightarrow> xtoi2 (a1 # a2 # t) e = Some a"
    using hexByte_props [of a] by blast
  obtain b1 b2 where b: "hexByte b = [b1, b2]" "b1 \<noteq> CHR '':''" "b2 \<noteq> CHR '':''"
      "\<And>t e. t = [] \<or> hd t = e \<Longrightarrow> xtoi2 (b1 # b2 # t) e = Some b"
    using hexByte_props [of b] by blast
  obtain c1 c2 where c: "hexByte c = [c1, c2]" "c1 \<noteq> CHR '':''" "c2 \<noteq> CHR '':''"
      "\<And>t e. t = [] \<or> hd t = e \<Longrightarrow> xtoi2 (c1 # c2 # t) e = Some c"
    using hexByte_props [of c] by blast
  obtain d1 d2 where d: "hexByte d = [d1, d2]" "d1 \<noteq> CHR '':''" "d2 \<noteq> CHR '':''"
      "\<And>t e. t = [] \<or> hd t = e \<Longrightarrow> xtoi2 (d1 # d2 # t) e = Some d"
    using hexByte_props [of d] by blast
  obtain e1 e2 where e: "hexByte e = [e1, e2]" "e1 \<noteq> CHR '':''" "e2 \<noteq> CHR '':''"
      "\<And>t e'. t = [] \<or> hd t = e' \<Longrightarrow> xtoi2 (e1 # e2 # t) e' = Some e"
    using hexByte_props [of e] by blast
  obtain f1 f2 where f: "hexByte f = [f1, f2]" "f1 \<noteq> CHR '':''" "f2 \<noteq> CHR '':''"
      "\<And>t e. t = [] \<or> hd t = e \<Longrightarrow> xtoi2 (f1 # f2 # t) e = Some f"
    using hexByte_props [of f] by blast
  have str: "HardwareAddr_String m
      = [a1, a2, CHR '':'', b1, b2, CHR '':'', c1, c2, CHR '':'',
         d1, d2, CHR '':'', e1, e2, CHR '':'', f1, f2]"
    by (simp add: m a(1) b(1) c(1) d(1) e(1) f(1))
  have name: "drop 4 (Name \<lparr>mac = m\<rparr>) = [a1, a2, b1, b2, c1, c2, d1, d2, e1, e2, f1, f2]"
    by (simp add: Name_def removeColons_def str a(2,3) b(2,3) c(2,3) d(2,3) e(2,3) f(2,3))
  have add: "addColonToMacAddress (drop 4 (Name \<lparr>mac = m\<rparr>)) = Returns (HardwareAddr_String m)"
    unfolding name str addColonToMacAddress_def addColon_loop_12
    by simp
  have "parseMAC_bytes [a1, a2, CHR '':'', b1, b2, CHR '':'', c1, c2, CHR '':'',
         d1, d2, CHR '':'', e1, e2, CHR '':'', f1, f2] (CHR '':'') (Suc (Suc (Suc (Suc (Suc (Suc 0))))))
        = Some [a, b, c, d, e, f]"
    by (simp add: a(4) b(4) c(4) d(4) e(4) f(4))
  then have "ParseMAC (HardwareAddr_String m) = Inr m"
    unfolding str by (simp add: ParseMAC_def m) (simp add: eval_nat_numeral)
  with add show ?thesis by simp
qed

lemma Machines_loop_never_lists_node_names:
  assumes "k \<in> set ents" and "afterLastSlash k = Name m"
  shows "Machines_loop ds ents ret \<noteq> Returns (Inr ms)"
  using assms
proof (induction ents arbitrary: ret)
  case Nil
  then show ?case by simp
next
  case (Cons e ents)
  show ?case
  proof (cases "e = k")
    case True
    with Cons.prems(2) Machines_loop_node_name [of k "removeColons (HardwareAddr_String (mac m))" ds ents ret]
    show ?thesis by (auto simp: Name_node)
  next
    case False
    with Cons.prems have "k \<in> set ents" by simp
    from Cons.IH [OF this Cons.prems(2)] show ?thesis
      by (auto simp: Let_def split: outcome.splits sum.splits option.splits)
  qed
qed

section \<open>The claims, continued\<close>




text \<open>
  Claim C1, on the code. The node of \<open>aa:bb:cc:dd:ee:01\<close> is created under the
  name \<open>nodeaabbccddee01\<close>; \<open>Machines\<close> hands the whole name, prefix included, to
  \<open>addColonToMacAddress\<close>, gets \<open>no:de:aa:bb:cc:dd\<close>, which is no hardware
  address, and returns the error instead of the node.
\<close>

theorem C1_Machines_rejects_created_node:
  "CreateMachine ds_S1 mac01 [10, 0, 0, 10] 1000 = Returns ((Some m01, True), ds_node01)
   \<and> Name m01 = ''nodeaabbccddee01''
   \<and> children (keysAPI ds_node01) ''/blacksmith/machines''
       = [''/blacksmith/machines/nodeaabbccddee01'']
   \<and> addColonToMacAddress ''nodeaabbccddee01'' = Returns ''no:de:aa:bb:cc:dd''
   \<and> ParseMAC ''no:de:aa:bb:cc:dd'' = Inl AddrError
   \<and> Machines ds_node01 = Returns (Inl AddrError)"
proof -
  have "Name m01 = ''nodeaabbccddee01''" by code_simp
  moreover have "children (keysAPI ds_node01) ''/blacksmith/machines''
                   = [''/blacksmith/machines/nodeaabbccddee01'']"
    by code_simp
  moreover have "addColonToMacAddress ''nodeaabbccddee01'' = Returns ''no:de:aa:bb:cc:dd''"
    by code_simp
  moreover have "ParseMAC ''no:de:aa:bb:cc:dd'' = Inl AddrError" by code_simp
  ultimately show ?thesis using CreateMachine_S1 Machines_node01 by (simp add: m01_def)
qed

text \<open>
  Claim C2, on the code. Once the node of \<open>aa:bb:cc:dd:ee:01\<close> holds 10.0.0.10,
  a request of the same hardware address for 10.0.0.42, and a request of another
  hardware address for 10.0.0.10, both return the requested IP with no error: the
  snapshot is empty, since \<open>Machines\<close> fails. The request for the exact pair
  returns its IP the same way and leaves \<open>_last_seen\<close> as it was.
\<close>

theorem C2_Request_never_conflicts:
  "Request ds_S1 ''aa:bb:cc:dd:ee:01'' [10, 0, 0, 10] 1000
     = Returns (([10, 0, 0, 10], None), ds_node01)
   \<and> Request ds_node01 ''aa:bb:cc:dd:ee:01'' [10, 0, 0, 42] 2000
       = Returns (([10, 0, 0, 42], None), ds_node01)
   \<and> Request ds_node01 ''aa:bb:cc:dd:ee:02'' [10, 0, 0, 10] 2000
       = Returns (([10, 0, 0, 10], None), ds_node01)
   \<and> Request ds_node01 ''aa:bb:cc:dd:ee:01'' [10, 0, 0, 10] 2000
       = Returns (([10, 0, 0, 10], None), ds_node01)"
proof -
  have "Request ds_S1 ''aa:bb:cc:dd:ee:01'' [10, 0, 0, 10] 1000
          = Returns (([10, 0, 0, 10], None), ds_node01)"
    by code_simp
  moreover have "Request ds_node01 ''aa:bb:cc:dd:ee:01'' [10, 0, 0, 42] 2000
                   = Returns (([10, 0, 0, 42], None), ds_node01)"
    by code_simp
  moreover have "Request ds_node01 ''aa:bb:cc:dd:ee:02'' [10, 0, 0, 10] 2000
                   = Returns (([10, 0, 0, 10], None), ds_node01)"
    by code_simp
  moreover have "Request ds_node01 ''aa:bb:cc:dd:ee:01'' [10, 0, 0, 10] 2000
                   = Returns (([10, 0, 0, 10], None), ds_node01)"
    by code_simp
  ultimately show ?thesis by simp
qed

text \<open>
  Claim C3, on the code. \<open>Assign\<close> never returns an error, so whenever it
  returns, a Discover without option 97 is answered with an Offer of the IP it
  returned.
\<close>

theorem C3_Discover_always_offered:
  assumes "DNSAddresses h = Inr dns" and "options 97 = None"
    and "Assign ds (HardwareAddr_String (CHAddr p)) now = Returns ((ip, err), ds')"
  shows "err = None
         \<and> (\<exists>r. ServeDHCP h ds p dhcp4_Discover options raw now = Returns (Some r, ds')
                \<and> msgType r = dhcp4_Offer \<and> yIAddr r = ip)"
proof -
  from assms(3) have "err = None" by (rule Assign_error_nil)
  with assms show ?thesis
    by (simp add: ServeDHCP_def Let_def ReplyPacket_def)
qed

text \<open>
  At scenario S6 with a pool of one address, held by \<open>aa:bb:cc:dd:ee:01\<close>: the
  Discover of \<open>aa:bb:cc:dd:ee:02\<close> is offered that same address.
\<close>

theorem C3_Discover_always_offered_witness:
  "Get ds_S6 ''machines/nodeaabbccddee01/_IP'' = Inr ''10.0.0.10''
   \<and> leaseRange ds_S6 = 1 \<and> IP_String (leaseStart ds_S6) = ''10.0.0.10''
   \<and> Assign ds_S6 ''aa:bb:cc:dd:ee:02'' 2000 = Returns (([10, 0, 0, 10], None), ds_S6)
   \<and> (\<exists>r. ServeDHCP h_S1 ds_S6 p02 dhcp4_Discover Map.empty 5 2000 = Returns (Some r, ds_S6)
          \<and> msgType r = dhcp4_Offer \<and> yIAddr r = [10, 0, 0, 10])"
proof -
  have d: "DNSAddresses h_S1 = Inr [8, 8, 8, 8]" by (simp add: h_S1_def)
  have e: "(Map.empty :: Options) 97 = None" by simp
  have a: "Assign ds_S6 (HardwareAddr_String (CHAddr p02)) 2000
             = Returns (([10, 0, 0, 10], None), ds_S6)"
    by code_simp
  have g: "Get ds_S6 ''machines/nodeaabbccddee01/_IP'' = Inr ''10.0.0.10''" by code_simp
  have l: "leaseRange ds_S6 = 1 \<and> IP_String (leaseStart ds_S6) = ''10.0.0.10''" by code_simp
  from C3_Discover_always_offered [OF d e a, of 5] g l Assign_S6
  show ?thesis by simp
qed

text \<open>
  Claim C5, on the code. From the empty registry the first hardware address gets
  10.0.0.10; the second one gets 10.0.0.10 again, not 10.0.0.11, and no node is
  created for it.
\<close>

theorem C5_second_MAC_gets_leaseStart:
  "Assign ds_S1 ''aa:bb:cc:dd:ee:01'' 1000 = Returns (([10, 0, 0, 10], None), ds_node01)
   \<and> Assign ds_node01 ''aa:bb:cc:dd:ee:02'' 2000 = Returns (([10, 0, 0, 10], None), ds_node01)
   \<and> IPAdd (leaseStart ds_S1) 1 = Returns [10, 0, 0, 11]"
proof -
  have "Assign ds_node01 ''aa:bb:cc:dd:ee:02'' 2000
          = Returns (([10, 0, 0, 10], None), ds_node01)"
    by code_simp
  moreover have "IPAdd (leaseStart ds_S1) 1 = Returns [10, 0, 0, 11]" by code_simp
  ultimately show ?thesis using Assign_S1 by simp
qed

text \<open>
  Claim C7, on the code. The reply to a Discover is an Offer without option 12:
  only the branch of the Request adds the host name.
\<close>

theorem C7_Offer_has_no_HostName:
  assumes "ServeDHCP h ds p dhcp4_Discover options raw now = Returns (Some r, ds')"
  shows "msgType r = dhcp4_Offer \<and> map_of (replyOptions r) 12 = None"
proof -
  from ServeDHCP_Discover_shape [OF assms] obtain base where
    base: "fst ` set base \<subseteq> {1, 6, 3}" and mt: "msgType r = dhcp4_Offer"
    and opts: "replyOptions r = base @ pxeOptions h options" by blast
  have "(12 :: byte) \<notin> fst ` set (replyOptions r)"
    using base pxeOptions_codes [of h options] unfolding opts by auto
  then have "map_of (replyOptions r) 12 = None" by (simp add: map_of_eq_None_iff)
  with mt show ?thesis by simp
qed

theorem C7_Offer_has_no_HostName_witness:
  "ServeDHCP h_S1 ds_S1 p01 dhcp4_Discover Map.empty 5 1000 = Returns (Some offer_S1, ds_node01)
   \<and> msgType offer_S1 = dhcp4_Offer \<and> map_of (replyOptions offer_S1) 12 = None"
  using C7_Offer_has_no_HostName [OF ServeDHCP_S1] ServeDHCP_S1 by simp

text \<open>
  Claim C8, on the code. \<open>CreateMachine\<close> stores the dotted quad under
  \<open>machines/<name>/_IP\<close>; \<open>IP()\<close> reads the key \<open><name>/IP\<close>, which does not
  exist, and would parse its value as a CIDR, which a dotted quad is not.
\<close>

theorem C8_IP_does_not_read_back:
  "CreateMachine ds_S1 mac01 [10, 0, 0, 10] 1000 = Returns ((Some m01, True), ds_node01)
   \<and> Get ds_node01 ''machines/nodeaabbccddee01/_IP'' = Inr ''10.0.0.10''
   \<and> machine_prefixify m01 ''IP'' = ''nodeaabbccddee01/IP''
   \<and> EtcdMachine_IP ds_node01 m01 = Inl EcodeKeyNotFound
   \<and> EtcdMachine_IP (snd (Set ds_node01 ''nodeaabbccddee01/IP'' ''10.0.0.10'')) m01
       = Inl ParseError
   \<and> EtcdMachine_IP (snd (Set ds_node01 ''nodeaabbccddee01/IP'' ''10.0.0.10/24'')) m01
       = Inr (IPv4 10 0 0 10)"
proof -
  have "Get ds_node01 ''machines/nodeaabbccddee01/_IP'' = Inr ''10.0.0.10''" by code_simp
  moreover have "machine_prefixify m01 ''IP'' = ''nodeaabbccddee01/IP''" by code_simp
  moreover have "EtcdMachine_IP ds_node01 m01 = Inl EcodeKeyNotFound" by code_simp
  moreover have
    "EtcdMachine_IP (snd (Set ds_node01 ''nodeaabbccddee01/IP'' ''10.0.0.10'')) m01
       = Inl ParseError"
    by code_simp
  moreover have
    "EtcdMachine_IP (snd (Set ds_node01 ''nodeaabbccddee01/IP'' ''10.0.0.10/24'')) m01
       = Inr (IPv4 10 0 0 10)"
    by code_simp
  ultimately show ?thesis using CreateMachine_S1 by (simp add: m01_def)
qed

text \<open>
  Claim C10, on the code. Whenever \<open>Assign\<close> returns, a Discover whose option
  97 has no bytes makes the handler panic at \<open>guidVal[1:]\<close>.
\<close>

theorem C10_empty_option_97_panics:
  assumes "DNSAddresses h = Inr dns" and "options 97 = Some []"
    and "Assign ds (HardwareAddr_String (CHAddr p)) now = Returns (x, ds')"
  shows "ServeDHCP h ds p dhcp4_Discover options raw now = Panics"
proof -
  obtain ip err where x: "x = (ip, err)" by (cases x)
  with assms(3) have "err = None" using Assign_error_nil by blast
  with assms x show ?thesis
    by (simp add: ServeDHCP_def Let_def addPXE_def)
qed

theorem C10_empty_option_97_panics_witness:
  "ServeDHCP h_S1 ds_S1 p01 dhcp4_Discover options_empty97 5 1000 = Panics"
proof -
  have d: "DNSAddresses h_S1 = Inr [8, 8, 8, 8]" by (simp add: h_S1_def)
  have o: "options_empty97 97 = Some []" by (simp add: options_empty97_def)
  have a: "Assign ds_S1 (HardwareAddr_String (CHAddr p01)) 1000
             = Returns (([10, 0, 0, 10], None), ds_node01)"
    by code_simp
  show ?thesis
    by (rule C10_empty_option_97_panics
              [where h = h_S1 and options = options_empty97 and p = p01, OF d o a])
qed

end
